theory Spec2Isabelle
  imports Complex_Main
begin

section \<open>The interview assistant of \<^verbatim>\<open>models/rag_model.py\<close>\<close>

text \<open>
  The module has three pure pieces of logic: the ranking of stored job descriptions against
  a resume (\<^verbatim>\<open>process_resume_and_match_jobs\<close>), the question bank
  (\<^verbatim>\<open>generate_questions_for_job\<close>) and the answer heuristic
  (\<^verbatim>\<open>provide_feedback\<close>). Each is embedded below as a HOL function that follows
  the Python statement by statement; exceptions are values of a sum type.
\<close>

subsection \<open>Python strings\<close>

text \<open>
  A Python \<^verbatim>\<open>str\<close> is a sequence of Unicode code points and \<^verbatim>\<open>len\<close> counts code
  points. One question of the bank contains \<^verbatim>\<open>U+20AC\<close> and \<^verbatim>\<open>U+2122\<close>, which no 8-bit
  character holds, so a string is a list of code points. \<open>str\<close> reads an ASCII literal.
\<close>

type_synonym pystr = "nat list"

definition str :: "string \<Rightarrow> pystr" where
  "str s = map of_char s"

text \<open>
  \<^verbatim>\<open>str.strip()\<close> without argument removes the code points for which CPython's
  \<^verbatim>\<open>Py_UNICODE_ISSPACE\<close> holds: \<^verbatim>\<open>U+0009..U+000D\<close>, \<^verbatim>\<open>U+001C..U+0020\<close>, \<^verbatim>\<open>U+0085\<close>, \<^verbatim>\<open>U+00A0\<close>,
  \<^verbatim>\<open>U+1680\<close>, \<^verbatim>\<open>U+2000..U+200A\<close>, \<^verbatim>\<open>U+2028\<close>, \<^verbatim>\<open>U+2029\<close>, \<^verbatim>\<open>U+202F\<close>, \<^verbatim>\<open>U+205F\<close> and \<^verbatim>\<open>U+3000\<close>.
  It scans from the left, then from the right, and returns the slice in between.
\<close>

definition isspace :: "nat \<Rightarrow> bool" where
  "isspace c \<longleftrightarrow>
     (0x09 \<le> c \<and> c \<le> 0x0D) \<or> (0x1C \<le> c \<and> c \<le> 0x20) \<or> c = 0x85 \<or> c = 0xA0 \<or>
     c = 0x1680 \<or> (0x2000 \<le> c \<and> c \<le> 0x200A) \<or> c = 0x2028 \<or> c = 0x2029 \<or>
     c = 0x202F \<or> c = 0x205F \<or> c = 0x3000"

definition strip :: "pystr \<Rightarrow> pystr" where
  "strip s = rev (dropWhile isspace (rev (dropWhile isspace s)))"

subsection \<open>The answer heuristic\<close>

text \<open>
  \<^verbatim>\<open>
  def provide_feedback(answers):
      score = 0
      for answer in answers:
          if len(answer.strip()) > 20:
              score += 1
      if score >= len(answers) * 0.8:
          feedback = "Excellent! You have strong responses for this role."
      elif score >= len(answers) * 0.5:
          feedback = "Good! But there's room for improvement in some answers."
      else:
          feedback = "Needs improvement. Consider revising your answers."
      return score, feedback
  \<close>
  The loop is \<open>count_answers\<close>, with the running \<^verbatim>\<open>score\<close> as accumulator. Python compares
  the integer \<^verbatim>\<open>score\<close> with the double \<^verbatim>\<open>len(answers) * 0.8\<close> exactly. The model
  multiplies in the reals. The double product agrees with the real one wherever the comparison
  can tell: \<^verbatim>\<open>n * 0.5\<close> is exact; the literal \<^verbatim>\<open>0.8\<close> is \<open>0.8 + 0.4 * 2^-53\<close>, so for \<open>n\<close> a
  multiple of five the exact product is less than half a unit in the last place above the
  integer \<open>4n/5\<close> and rounds to it, and for any other \<open>n\<close> the product is at least \<open>0.2\<close>
  away from every integer, more than the rounding error of any list that fits in memory.
\<close>

fun count_answers :: "pystr list \<Rightarrow> int \<Rightarrow> int" where
  "count_answers [] score = score"
| "count_answers (answer # answers) score =
     count_answers answers (if length (strip answer) > 20 then score + 1 else score)"

definition provide_feedback :: "pystr list \<Rightarrow> int \<times> pystr" where
  "provide_feedback answers =
     (let score = count_answers answers 0;
          feedback =
            (if real_of_int score \<ge> real (length answers) * 0.8
               then str ''Excellent! You have strong responses for this role.''
             else if real_of_int score \<ge> real (length answers) * 0.5
               then str ''Good! But there's room for improvement in some answers.''
             else str ''Needs improvement. Consider revising your answers.'')
      in (score, feedback))"

subsection \<open>The question bank\<close>

text \<open>
  Every role has a function returning a literal list of questions. The module defines
  \<^verbatim>\<open>generate_site_reliability_engineer_questions\<close> twice; the second \<^verbatim>\<open>def\<close> rebinds
  the name before any call, so the second body is the one embedded here. The module-level list
  \<^verbatim>\<open>job_titles\<close> advertises the roles.
\<close>

definition generate_software_engineer_questions :: "pystr list" where
  "generate_software_engineer_questions =
     [str ''What are the core principles of object-oriented programming (OOP)?'',
      str ''Explain the concept of design patterns. Can you provide an example?'',
      str ''Describe how you manage code versioning using Git.'',
      str ''How do you ensure the quality and maintainability of your code?'',
      str ''What testing strategies do you use during development?'',
      str ''Can you explain the differences between functional and imperative programming?'']"

definition generate_data_scientist_questions :: "pystr list" where
  "generate_data_scientist_questions =
     [str ''What data cleaning techniques do you typically use?'',
      str ''How do you approach exploratory data analysis (EDA)?'',
      str ''What is your experience with machine learning algorithms like regression or classification?'',
      str ''Explain a time you optimized a model to improve accuracy.'',
      str ''Which tools and frameworks do you prefer for data visualization?'',
      str ''How do you deal with imbalanced datasets?'']"

definition generate_cloud_engineer_questions :: "pystr list" where
  "generate_cloud_engineer_questions =
     [str ''What is your experience with cloud platforms like AWS, Azure, or Google Cloud?'',
      str ''How do you ensure high availability and fault tolerance in the cloud?'',
      str ''What is the difference between IaaS, PaaS, and SaaS?'',
      str ''Explain how you approach security in cloud environments.'',
      str ''What is your experience with containerization and orchestration tools like Docker and Kubernetes?'',
      str ''How do you monitor cloud infrastructure and services?'']"

definition generate_full_stack_developer_questions :: "pystr list" where
  "generate_full_stack_developer_questions =
     [str ''How do you ensure communication between the front-end and back-end of a full-stack application?'',
      str ''What technologies do you use for building RESTful APIs?'',
      str ''How would you handle user authentication and authorization in a web application?'',
      str ''Explain the differences between SQL and NoSQL databases.'',
      str ''How do you optimize the performance of both front-end and back-end systems?'',
      str ''Can you walk us through your development process for a full-stack application?'']"

definition generate_devops_engineer_questions :: "pystr list" where
  "generate_devops_engineer_questions =
     [str ''What is your experience with continuous integration/continuous deployment (CI/CD)?'',
      str ''How do you monitor system performance and ensure reliability?'',
      str ''Can you explain the concept of infrastructure as code (IaC)?'',
      str ''What tools do you use for automation and configuration management?'',
      str ''How do you handle scaling in a cloud environment?'',
      str ''Explain your approach to disaster recovery and business continuity.'']"

definition generate_front_end_developer_questions :: "pystr list" where
  "generate_front_end_developer_questions =
     [str ''What is your experience with front-end frameworks like React, Angular, or Vue?'',
      str ''How do you ensure responsive design across multiple devices?'',
      str ''What is the difference between server-side rendering and client-side rendering?'',
      str ''How do you optimize the performance of a front-end application?'',
      str ''Can you explain the concept of state management in a front-end application?'',
      str ''How do you handle cross-browser compatibility issues?'']"

definition generate_back_end_developer_questions :: "pystr list" where
  "generate_back_end_developer_questions =
     [str ''What is your experience with back-end technologies like Node.js, Python, or Ruby?'',
      str ''How do you design scalable and maintainable APIs?'',
      str ''Can you explain how you handle database migrations?'',
      str ''What strategies do you use for error handling and logging?'',
      str ''How do you ensure the security of your back-end systems?'',
      str ''What is your approach to optimizing database queries for performance?'']"

definition generate_mobile_application_developer_questions :: "pystr list" where
  "generate_mobile_application_developer_questions =
     [str ''What is your experience with iOS and Android development?'',
      str ''How do you manage app performance on different mobile devices?'',
      str ''Can you explain the difference between native and hybrid mobile applications?'',
      str ''What tools and frameworks do you use for mobile app testing?'',
      str ''How do you handle offline functionality in mobile applications?'',
      str ''What is your experience with mobile app security?'']"

definition generate_cybersecurity_analyst_questions :: "pystr list" where
  "generate_cybersecurity_analyst_questions =
     [str ''What is your experience with vulnerability assessments and penetration testing?'',
      str ''How do you stay updated on the latest security threats and trends?'',
      str ''Can you explain the difference between symmetric and asymmetric encryption?'',
      str ''What strategies do you use to secure an organization's network?'',
      str ''How do you approach incident response and handling a security breach?'',
      str ''What tools do you use for network security monitoring?'']"

definition generate_database_administrator_questions :: "pystr list" where
  "generate_database_administrator_questions =
     [str ''What is your experience with database optimization and indexing?'',
      str ''How do you handle database backups and recovery?'',
      str ''Explain your experience with database clustering and replication.'',
      str ''What is your approach to data security and encryption in databases?'',
      str ''How do you ensure database high availability and fault tolerance?'',
      str ''Can you explain the differences between relational and non-relational databases?'']"

definition generate_system_administrator_questions :: "pystr list" where
  "generate_system_administrator_questions =
     [str ''What is your experience with system monitoring and troubleshooting?'',
      str ''How do you manage and configure servers for scalability?'',
      str ''Can you explain the concept of virtualization and your experience with it?'',
      str ''What tools do you use for automation and configuration management?'',
      str ''How do you ensure the security of the systems you manage?'',
      str ''Explain your experience with network configuration and firewall management.'']"

definition generate_network_engineer_questions :: "pystr list" where
  "generate_network_engineer_questions =
     [str ''What is your experience with network protocols like TCP/IP and DNS?'',
      str ''How do you troubleshoot network connectivity issues?'',
      str ''What is your experience with network performance monitoring tools?'',
      str ''Can you explain how you would design a network infrastructure for a company?'',
      str ''What strategies do you use to secure a network?'',
      str ''How do you ensure high availability in network infrastructure?'']"

definition generate_it_support_specialist_questions :: "pystr list" where
  "generate_it_support_specialist_questions =
     [str ''How do you prioritize and manage multiple support tickets?'',
      str ''Can you explain how you diagnose hardware and software issues?'',
      str ''What tools do you use for remote troubleshooting?'',
      str ''How do you manage user permissions and access control?'',
      str ''What is your approach to maintaining system documentation?'',
      str ''How do you ensure a high level of customer satisfaction in support?'']"

definition generate_web_developer_questions :: "pystr list" where
  "generate_web_developer_questions =
     [str ''What are the key differences between HTML5 and its previous versions?'',
      str ''How do you ensure that a website is responsive across different devices?'',
      str ''Explain the box model in CSS and how it affects layout design.'',
      str ''What is the difference between synchronous and asynchronous JavaScript?'',
      str ''Describe how you would optimize a website for performance and SEO.'',
      str ''What tools or frameworks do you use for front-end development?'']"

definition generate_product_manager_questions :: "pystr list" where
  "generate_product_manager_questions =
     [str ''What strategies do you use for gathering product requirements?'',
      str ''How do you prioritize features in the product roadmap?'',
      str ''Can you explain your experience with product lifecycle management?'',
      str ''How do you collaborate with engineering, marketing, and design teams?'',
      str ''What is your experience with agile methodologies in product development?'',
      str ''How do you measure the success of a product after launch?'']"

definition generate_machine_learning_engineer_questions :: "pystr list" where
  "generate_machine_learning_engineer_questions =
     [str ''What machine learning algorithms are you most comfortable with?'',
      str ''How do you handle missing data in your models?'',
      str ''What techniques do you use for feature selection?'',
      str ''Explain a challenging machine learning project you worked on and your approach to solving it.'',
      str ''What is your experience with deep learning frameworks like TensorFlow or PyTorch?'',
      str ''How do you evaluate the performance of your machine learning models?'']"

definition generate_it_project_manager_questions :: "pystr list" where
  "generate_it_project_manager_questions =
     [str ''Describe your approach to managing complex IT projects with tight deadlines.'',
      str ''How do you ensure alignment between stakeholders during a project lifecycle?'',
      str ''Explain how you manage risks and resolve conflicts in an IT project.'',
      str ''Which project management tools do you prefer and why?'',
      str ''How do you ensure your project team remains motivated and productive?'',
      str ''Describe a challenging IT project you managed and how you ensured its success.'']"

definition generate_business_analyst_questions :: "pystr list" where
  "generate_business_analyst_questions =
     [str ''How do you identify and document business requirements effectively?'',
      str ''What techniques do you use to perform gap analysis?'',
      str ''How do you handle conflicting requirements from different stakeholders?'',
      str ''Can you explain a time when you improved a business process significantly?'',
      str ''Which software or tools do you prefer for creating workflows or wireframes?'',
      str ''How do you ensure that your solutions align with organizational goals?'']"

definition generate_technical_support_engineer_questions :: "pystr list" where
  "generate_technical_support_engineer_questions =
     [str ''How do you troubleshoot and resolve technical issues under pressure?'',
      str ''Describe your experience with handling escalated support tickets.'',
      str ''What tools or software do you prefer for remote troubleshooting?'',
      str ''How do you communicate technical concepts to non-technical users?'',
      str ''Explain a time when you solved a recurring issue in your support role.'',
      str ''How do you stay updated on the latest technologies and troubleshooting techniques?'']"

definition generate_quality_assurance_engineer_questions :: "pystr list" where
  "generate_quality_assurance_engineer_questions =
     [str ''How do you design effective test cases for complex applications?'',
      str ''What strategies do you use for ensuring thorough regression testing?'',
      str ''How do you prioritize bugs during the software testing process?'',
      str ''What automation tools have you used, and how do you evaluate their effectiveness?'',
      str ''Describe a time when you identified a critical bug late in the development cycle.'',
      str ''How do you collaborate with developers to improve software quality?'']"

definition generate_data_engineer_questions :: "pystr list" where
  "generate_data_engineer_questions =
     [str ''How do you design and optimize data pipelines for large-scale datasets?'',
      str ''What experience do you have with distributed systems like Hadoop or Spark?'',
      str ''How do you ensure data quality and integrity in your ETL processes?'',
      str ''What tools or platforms do you use for real-time data processing?'',
      str ''Explain how you have used cloud platforms for data engineering tasks.'',
      str ''How do you manage and secure sensitive data in compliance with regulations?'']"

definition generate_ai_engineer_questions :: "pystr list" where
  "generate_ai_engineer_questions =
     [str ''What is your experience with training and fine-tuning machine learning models?'',
      str ''How do you optimize neural networks for performance and accuracy?'',
      str ''Describe a project where you applied AI to solve a real-world problem.'',
      str ''What frameworks and libraries do you prefer for AI development?'',
      str ''How do you handle bias in AI models during development?'',
      str ''What strategies do you use to deploy AI solutions into production?'']"

definition generate_ux_ui_designer_questions :: "pystr list" where
  "generate_ux_ui_designer_questions =
     [str ''How do you approach user research to inform your design process?'',
      str ''What tools do you prefer for wireframing and prototyping?'',
      str ''Describe how you have improved the usability of a product through design.'',
      str ''How do you balance user needs with business goals in your designs?'',
      str ''Explain how you collaborate with developers to implement your designs.'',
      str ''What strategies do you use to gather and act on user feedback?'']"

definition generate_it_consultant_questions :: "pystr list" where
  "generate_it_consultant_questions =
     [str ''How do you assess a company's IT infrastructure to recommend improvements?'',
      str ''Describe a project where you implemented significant IT changes successfully.'',
      str ''What methodologies do you use to ensure IT projects meet business goals?'',
      str ''How do you stay updated with emerging technologies to advise clients?'',
      str ''Explain a time when you had to manage resistance to IT changes.'',
      str ''What tools do you use for conducting IT audits or assessments?'']"

definition generate_solutions_architect_questions :: "pystr list" where
  "generate_solutions_architect_questions =
     [str ''How do you ensure a solution architecture meets both technical and business needs?'',
      str ''Describe your approach to creating scalable and secure system designs.'',
      str ''What cloud platforms do you have experience with, and how have you used them?'',
      str ''How do you handle trade-offs between technical and cost considerations?'',
      str ''Explain a time when you designed a solution that solved a critical problem.'',
      str ''How do you work with stakeholders to validate solution requirements?'']"

definition generate_it_operations_manager_questions :: "pystr list" where
  "generate_it_operations_manager_questions =
     [str ''How do you manage and optimize IT operations for maximum efficiency?'',
      str ''What metrics do you track to evaluate IT operational performance?'',
      str ''Describe your approach to managing incident response and minimizing downtime.'',
      str ''How do you ensure compliance with IT policies and regulations?'',
      str ''Explain a time when you successfully managed a major IT infrastructure upgrade.'',
      str ''How do you prioritize IT investments to align with business goals?'']"

definition generate_cto_questions :: "pystr list" where
  "generate_cto_questions =
     [str ''How do you develop and communicate a clear technology vision for the company?'',
      str ''What strategies do you use to align technology with business objectives?'',
      str ''Describe a time when you led a major technology transformation in an organization.'',
      str ''How do you manage competing priorities for technology investment?'',
      str ''Explain your approach to building and managing a high-performing IT team.'',
      str ''What emerging technologies do you believe will have the biggest impact in the future?'']"

definition generate_security_engineer_questions :: "pystr list" where
  "generate_security_engineer_questions =
     [str ''How do you approach securing a network against potential threats?'',
      str ''What tools and techniques do you use to conduct penetration testing?'',
      str ''How do you stay updated with the latest cybersecurity vulnerabilities and threats?'',
      str ''Describe a time when you responded to a security breach. What was your process?'',
      str ''What experience do you have with implementing SIEM (Security Information and Event Management) systems?'',
      str ''How do you ensure compliance with data security regulations such as GDPR or HIPAA?'']"

definition generate_it_auditor_questions :: "pystr list" where
  "generate_it_auditor_questions =
     [str ''How do you evaluate an organization'' @ [0xE2, 0x20AC, 0x2122] @ str ''s IT systems for compliance and security?'',
      str ''What frameworks or standards do you use for IT audits (e.g., ISO 27001, COBIT)?'',
      str ''Describe a time when you identified a significant risk during an audit. How did you address it?'',
      str ''How do you prioritize tasks when auditing multiple systems or processes?'',
      str ''What tools or software do you use to perform IT audits effectively?'',
      str ''How do you communicate findings and recommendations to non-technical stakeholders?'']"

definition generate_software_architect_questions :: "pystr list" where
  "generate_software_architect_questions =
     [str ''How do you design scalable and maintainable software architectures?'',
      str ''What tools and techniques do you use to document system architectures?'',
      str ''Describe your approach to selecting technologies for a new project.'',
      str ''How do you ensure alignment between development teams and architectural goals?'',
      str ''Explain a time when you had to refactor an existing system to improve performance or scalability.'',
      str ''How do you manage technical debt in long-term projects?'']"

definition generate_scrum_master_questions :: "pystr list" where
  "generate_scrum_master_questions =
     [str ''How do you ensure that your team adheres to Agile principles and Scrum practices?'',
      str ''Describe your process for handling team conflicts during a sprint.'',
      str ''What tools do you use to manage sprint planning and track progress?'',
      str ''How do you measure and improve team velocity over time?'',
      str ''Explain a time when you helped a team overcome obstacles to deliver a project on time.'',
      str ''How do you communicate with stakeholders about project progress and risks?'']"

definition generate_technical_writer_questions :: "pystr list" where
  "generate_technical_writer_questions =
     [str ''How do you create technical documentation that is accessible to various audiences?'',
      str ''What tools or platforms do you use for writing and managing documentation?'',
      str ''Describe your process for gathering information from subject matter experts.'',
      str ''How do you ensure accuracy and clarity in technical documents?'',
      str ''Can you provide an example of a complex topic you simplified through documentation?'',
      str ''How do you stay updated on tools and trends in technical writing?'']"

definition generate_network_security_analyst_questions :: "pystr list" where
  "generate_network_security_analyst_questions =
     [str ''How do you monitor and analyze network traffic for potential security threats?'',
      str ''What tools do you use to detect and mitigate network vulnerabilities?'',
      str ''Describe your process for responding to a DDoS (Distributed Denial of Service) attack.'',
      str ''How do you implement and manage firewalls and intrusion detection systems?'',
      str ''What strategies do you use to educate employees on network security best practices?'',
      str ''How do you ensure compliance with network security standards and regulations?'']"

definition generate_game_developer_questions :: "pystr list" where
  "generate_game_developer_questions =
     [str ''What game engines are you proficient in, and how have you used them in projects?'',
      str ''Describe your process for optimizing game performance across platforms.'',
      str ''How do you design engaging gameplay mechanics that enhance the user experience?'',
      str ''What tools do you use for debugging and testing games during development?'',
      str ''Explain how you work with artists and designers to implement game assets.'',
      str ''Describe a challenging bug you encountered during development and how you resolved it.'']"

definition generate_embedded_systems_engineer_questions :: "pystr list" where
  "generate_embedded_systems_engineer_questions =
     [str ''What microcontrollers or processors have you worked with in your projects?'',
      str ''How do you ensure real-time performance in embedded systems?'',
      str ''Describe your experience with developing firmware for hardware devices.'',
      str ''What debugging tools do you use for testing embedded systems?'',
      str ''How do you optimize power consumption in low-power embedded devices?'',
      str ''Explain a time when you designed a system with strict memory or resource constraints.'']"

definition generate_erp_consultant_questions :: "pystr list" where
  "generate_erp_consultant_questions =
     [str ''What ERP platforms have you worked with, and how have you implemented them?'',
      str ''How do you ensure a smooth transition during an ERP system upgrade or migration?'',
      str ''What strategies do you use to customize ERP solutions for specific business needs?'',
      str ''Describe a challenging ERP implementation project and how you managed it.'',
      str ''How do you train employees on using new ERP systems effectively?'',
      str ''What tools do you use for integrating ERP systems with other enterprise applications?'']"

definition generate_salesforce_developer_questions :: "pystr list" where
  "generate_salesforce_developer_questions =
     [str ''What experience do you have with developing custom Salesforce applications?'',
      str ''How do you use Apex and Visualforce in your development process?'',
      str ''Describe your approach to integrating Salesforce with external systems.'',
      str ''What tools or strategies do you use to optimize Salesforce performance?'',
      str ''How do you ensure data security and compliance in Salesforce applications?'',
      str ''Explain a time when you customized Salesforce to meet a unique business requirement.'']"

definition generate_big_data_engineer_questions :: "pystr list" where
  "generate_big_data_engineer_questions =
     [str ''What tools and frameworks do you prefer for handling big data (e.g., Hadoop, Spark)?'',
      str ''How do you design and maintain scalable big data pipelines?'',
      str ''Describe your experience with managing structured and unstructured datasets.'',
      str ''What strategies do you use to ensure data consistency and quality in big data systems?'',
      str ''How have you implemented data security in big data environments?'',
      str ''Explain a challenging big data project you worked on and how you delivered results.'']"

definition generate_bi_developer_questions :: "pystr list" where
  "generate_bi_developer_questions =
     [str ''What BI tools and platforms are you proficient in (e.g., Tableau, Power BI)?'',
      str ''How do you design dashboards that effectively communicate business insights?'',
      str ''Describe your experience with writing complex SQL queries for data analysis.'',
      str ''What strategies do you use to ensure accuracy and reliability in BI reports?'',
      str ''Explain how you work with stakeholders to gather requirements for BI projects.'',
      str ''Describe a time when your BI solution had a significant impact on business decisions.'']"

definition generate_information_security_analyst_questions :: "pystr list" where
  "generate_information_security_analyst_questions =
     [str ''How do you assess and mitigate security risks within an organization?'',
      str ''What tools do you use for vulnerability scanning and threat detection?'',
      str ''Describe your process for responding to and investigating security incidents.'',
      str ''How do you ensure compliance with information security standards (e.g., ISO 27001)?'',
      str ''Explain a time when you successfully prevented a security breach.'',
      str ''What strategies do you use to educate employees on information security best practices?'']"

definition generate_robotics_engineer_questions :: "pystr list" where
  "generate_robotics_engineer_questions =
     [str ''What programming languages and frameworks do you use for robotics development?'',
      str ''Describe your experience with designing and implementing robotic control systems.'',
      str ''How do you integrate sensors and actuators into robotic systems?'',
      str ''What strategies do you use to optimize robot performance in dynamic environments?'',
      str ''Describe a challenging robotics project you worked on and how you overcame obstacles.'',
      str ''How do you approach testing and debugging in robotic systems?'']"

definition generate_cloud_solutions_architect_questions :: "pystr list" where
  "generate_cloud_solutions_architect_questions =
     [str ''What experience do you have with designing cloud-based architectures for scalability and security?'',
      str ''Describe your approach to choosing between different cloud service providers (e.g., AWS, Azure, GCP).'',
      str ''How do you ensure compliance with data security and privacy regulations in cloud solutions?'',
      str ''What tools and techniques do you use for cost optimization in cloud architectures?'',
      str ''Explain a complex cloud migration project you worked on and how you managed it.'',
      str ''How do you handle hybrid cloud or multi-cloud environments effectively?'']"

definition generate_computer_vision_engineer_questions :: "pystr list" where
  "generate_computer_vision_engineer_questions =
     [str ''What tools and frameworks do you use for computer vision development (e.g., OpenCV, TensorFlow)?'',
      str ''Describe your experience with designing and training deep learning models for vision tasks.'',
      str ''How do you optimize computer vision algorithms for real-time performance?'',
      str ''What strategies do you use to collect and preprocess data for computer vision projects?'',
      str ''Explain a challenging computer vision problem you solved and the techniques you used.'',
      str ''How do you ensure the robustness and accuracy of your computer vision models?'']"

definition generate_penetration_tester_questions :: "pystr list" where
  "generate_penetration_tester_questions =
     [str ''What tools and techniques do you use to identify and exploit vulnerabilities in systems?'',
      str ''Describe your process for performing a penetration test from start to finish.'',
      str ''How do you report and communicate findings to stakeholders effectively?'',
      str ''What strategies do you use to stay updated with the latest exploits and attack methods?'',
      str ''Explain a challenging penetration test you conducted and the outcomes.'',
      str ''How do you ensure compliance with ethical hacking and legal regulations?'']"

definition generate_data_analyst_questions :: "pystr list" where
  "generate_data_analyst_questions =
     [str ''What tools and platforms do you use for data analysis (e.g., Excel, Python, Tableau)?'',
      str ''Describe your experience with cleaning and preprocessing large datasets.'',
      str ''How do you communicate your findings effectively to non-technical stakeholders?'',
      str ''What techniques do you use for identifying trends and patterns in data?'',
      str ''Explain a data analysis project where your insights had a significant impact.'',
      str ''How do you ensure data accuracy and reliability in your reports?'']"

definition generate_blockchain_developer_questions :: "pystr list" where
  "generate_blockchain_developer_questions =
     [str ''What blockchain platforms are you proficient in (e.g., Ethereum, Hyperledger)?'',
      str ''Describe your experience with developing smart contracts using Solidity or other languages.'',
      str ''How do you ensure the security of blockchain applications against potential vulnerabilities?'',
      str ''What tools do you use for testing and debugging blockchain-based solutions?'',
      str ''Explain a blockchain project you worked on and the challenges you faced.'',
      str ''How do you optimize the performance of blockchain networks and applications?'']"

definition generate_it_compliance_specialist_questions :: "pystr list" where
  "generate_it_compliance_specialist_questions =
     [str ''What frameworks or standards do you use to ensure IT compliance (e.g., GDPR, ISO 27001)?'',
      str ''Describe your process for conducting IT compliance audits.'',
      str ''How do you stay updated with changes in compliance regulations?'',
      str ''What strategies do you use to train employees on IT compliance requirements?'',
      str ''Explain a time when you identified and resolved a compliance issue.'',
      str ''How do you collaborate with other departments to maintain IT compliance?'']"

definition generate_software_development_manager_questions :: "pystr list" where
  "generate_software_development_manager_questions =
     [str ''How do you manage and prioritize tasks for development teams?'',
      str ''Describe your approach to ensuring the quality and scalability of software projects.'',
      str ''How do you handle conflicts or challenges within your development team?'',
      str ''What strategies do you use to ensure on-time delivery of software projects?'',
      str ''Explain a time when you implemented a new process to improve development efficiency.'',
      str ''How do you balance technical leadership with project management responsibilities?'']"

definition generate_virtual_reality_developer_questions :: "pystr list" where
  "generate_virtual_reality_developer_questions =
     [str ''What tools and frameworks do you use for VR development (e.g., Unity, Unreal Engine)?'',
      str ''Describe your experience with designing immersive VR environments.'',
      str ''How do you optimize VR applications for performance and user experience?'',
      str ''What strategies do you use to integrate VR with other technologies (e.g., AR, AI)?'',
      str ''Explain a VR project you worked on and the challenges you faced.'',
      str ''How do you ensure accessibility and usability in VR applications?'']"

definition generate_site_reliability_engineer_questions :: "pystr list" where
  "generate_site_reliability_engineer_questions =
     [str ''How do you monitor and maintain system reliability in a distributed environment?'',
      str ''Describe your experience with incident response and root cause analysis.'',
      str ''What tools and techniques do you use to automate infrastructure and deployment?'',
      str ''How do you ensure high availability and fault tolerance in critical systems?'',
      str ''Can you explain the concept of SLOs, SLIs, and SLAs and how you use them?'',
      str ''What strategies do you use to scale systems to handle increased demand?'']"

definition generate_infrastructure_engineer_questions :: "pystr list" where
  "generate_infrastructure_engineer_questions =
     [str ''What is your experience in designing and implementing IT infrastructure?'',
      str ''How do you handle network bottlenecks and improve infrastructure performance?'',
      str ''Describe a project where you successfully migrated infrastructure to the cloud.'',
      str ''What tools do you use for infrastructure monitoring and management?'',
      str ''How do you ensure security and compliance in IT infrastructure?'',
      str ''Can you explain the process of capacity planning and resource allocation?'']"

definition generate_it_operations_analyst_questions :: "pystr list" where
  "generate_it_operations_analyst_questions =
     [str ''How do you ensure smooth day-to-day IT operations?'',
      str ''What tools do you use to monitor IT systems and prevent downtime?'',
      str ''Describe your experience with ITIL or other service management frameworks.'',
      str ''How do you handle escalations and prioritize incident response?'',
      str ''What methods do you use to optimize IT operations and improve efficiency?'',
      str ''Can you share an example where you implemented automation in IT operations?'']"

definition generate_digital_marketing_specialist_questions :: "pystr list" where
  "generate_digital_marketing_specialist_questions =
     [str ''What is your experience with SEO and PPC campaigns?'',
      str ''How do you analyze and improve the performance of digital marketing strategies?'',
      str ''Which tools do you prefer for social media marketing and why?'',
      str ''How do you measure ROI for digital marketing campaigns?'',
      str ''Can you explain your approach to content marketing and brand awareness?'',
      str ''Describe a successful campaign you managed and the results you achieved.'']"

definition generate_network_architect_questions :: "pystr list" where
  "generate_network_architect_questions =
     [str ''How do you design scalable and secure network architectures?'',
      str ''What experience do you have with SDN (Software-Defined Networking)?'',
      str ''Can you describe a time you optimized a network for performance and reliability?'',
      str ''What tools and protocols do you use to monitor network traffic?'',
      str ''How do you ensure network security against evolving threats?'',
      str ''What is your process for evaluating and implementing new networking technologies?'']"

definition generate_help_desk_technician_questions :: "pystr list" where
  "generate_help_desk_technician_questions =
     [str ''How do you handle troubleshooting technical issues for end-users?'',
      str ''Describe a situation where you resolved a high-priority IT issue.'',
      str ''What is your experience with ticketing systems like Jira or ServiceNow?'',
      str ''How do you communicate technical solutions to non-technical users?'',
      str ''What steps do you take to document recurring issues and their solutions?'',
      str ''How do you stay updated with the latest IT support tools and techniques?'']"

definition generate_configuration_manager_questions :: "pystr list" where
  "generate_configuration_manager_questions =
     [str ''How do you manage and maintain configuration baselines in IT systems?'',
      str ''Describe your experience with version control systems like Git.'',
      str ''What tools do you use for configuration management and automation?'',
      str ''How do you ensure compliance with configuration standards and policies?'',
      str ''Can you explain the importance of change management in configuration?'',
      str ''Describe a scenario where you resolved a critical configuration issue.'']"

definition generate_systems_analyst_questions :: "pystr list" where
  "generate_systems_analyst_questions =
     [str ''How do you gather and analyze business requirements for system design?'',
      str ''What tools and techniques do you use for process modeling and analysis?'',
      str ''Describe your experience with systems integration and testing.'',
      str ''How do you ensure the scalability and efficiency of system solutions?'',
      str ''What methods do you use to stay updated on emerging technologies?'',
      str ''Can you provide an example of a successful system implementation project?'']"

definition generate_database_developer_questions :: "pystr list" where
  "generate_database_developer_questions =
     [str ''What is your experience in designing and optimizing database schemas?'',
      str ''How do you ensure database performance and scalability?'',
      str ''Describe your experience with stored procedures, triggers, and indexing.'',
      str ''What tools do you use for database development and management?'',
      str ''How do you handle database migrations and data integrity issues?'',
      str ''Can you explain your approach to ensuring database security?'']"

definition generate_it_business_partner_questions :: "pystr list" where
  "generate_it_business_partner_questions =
     [str ''How do you align IT strategies with business goals?'',
      str ''Describe your experience collaborating with stakeholders to define IT priorities.'',
      str ''What methods do you use to measure the ROI of IT initiatives?'',
      str ''How do you identify opportunities for digital transformation in a business?'',
      str ''What is your approach to managing IT budgets and resources?'',
      str ''Can you share an example where you improved business outcomes through IT?'']"

definition generate_cloud_consultant_questions :: "pystr list" where
  "generate_cloud_consultant_questions =
     [str ''What is your experience with cloud platforms like AWS, Azure, or GCP?'',
      str ''How do you design cloud architectures to meet business requirements?'',
      str ''Describe a successful cloud migration project you led or participated in.'',
      str ''What tools and practices do you use for cloud cost optimization?'',
      str ''How do you ensure security and compliance in cloud environments?'',
      str ''Can you explain the advantages of serverless computing in the cloud?'']"

definition generate_virtualization_engineer_questions :: "pystr list" where
  "generate_virtualization_engineer_questions =
     [str ''What is your experience with virtualization platforms like VMware or Hyper-V?'',
      str ''How do you optimize virtualized environments for performance and efficiency?'',
      str ''Describe your experience with virtual machine migrations and backups.'',
      str ''What tools do you use for monitoring and managing virtualized systems?'',
      str ''How do you ensure security in a virtualized infrastructure?'',
      str ''Can you explain the benefits of containerization over traditional virtualization?'']"

definition generate_e_commerce_specialist_questions :: "pystr list" where
  "generate_e_commerce_specialist_questions =
     [str ''What is your experience with e-commerce platforms like Shopify or Magento?'',
      str ''How do you optimize the user experience for e-commerce websites?'',
      str ''Describe a successful strategy you used to increase online sales.'',
      str ''What tools do you use for tracking and analyzing e-commerce metrics?'',
      str ''How do you ensure security and compliance for online transactions?'',
      str ''Can you share your approach to managing product catalogs and inventory online?'']"

definition generate_it_trainer_questions :: "pystr list" where
  "generate_it_trainer_questions =
     [str ''What is your experience in developing and delivering IT training programs?'',
      str ''How do you assess the effectiveness of your training sessions?'',
      str ''Describe a time you trained a team on a new technology or tool.'',
      str ''What methods do you use to engage learners during IT training?'',
      str ''How do you customize training materials for different skill levels?'',
      str ''What tools and platforms do you use for online IT training?'']"

definition generate_technical_project_manager_questions :: "pystr list" where
  "generate_technical_project_manager_questions =
     [str ''What is your experience in managing technical projects from start to finish?'',
      str ''How do you ensure projects stay on time and within budget?'',
      str ''Describe your approach to risk management in technical projects.'',
      str ''What tools do you use for project planning and tracking progress?'',
      str ''How do you handle changes in project scope or requirements?'',
      str ''Can you share an example of a challenging project you successfully delivered?'']"

definition generate_mobile_ux_designer_questions :: "pystr list" where
  "generate_mobile_ux_designer_questions =
     [str ''What is your process for designing user-friendly mobile interfaces?'',
      str ''How do you conduct usability testing for mobile applications?'',
      str ''Describe your experience with wireframing and prototyping tools.'',
      str ''What are the key considerations for designing cross-platform mobile apps?'',
      str ''How do you stay updated with trends in mobile UX design?'',
      str ''Can you share an example of a successful mobile UX design project you worked on?'']"

definition generate_noc_technician_questions :: "pystr list" where
  "generate_noc_technician_questions =
     [str ''How do you monitor and troubleshoot network issues in real-time?'',
      str ''What tools do you use for network performance monitoring?'',
      str ''Describe your experience with handling network outages and escalations.'',
      str ''How do you prioritize incidents in a high-pressure environment?'',
      str ''What protocols and standards do you follow for network maintenance?'',
      str ''Can you explain your process for documenting recurring network problems?'']"

definition generate_release_manager_questions :: "pystr list" where
  "generate_release_manager_questions =
     [str ''What is your approach to coordinating software releases across teams?'',
      str ''How do you ensure a smooth deployment process with minimal downtime?'',
      str ''Describe your experience with version control and CI/CD tools.'',
      str ''How do you manage and mitigate risks during a release?'',
      str ''What is your process for tracking post-release issues and feedback?'',
      str ''Can you provide an example of a challenging release you successfully managed?'']"

definition generate_it_change_manager_questions :: "pystr list" where
  "generate_it_change_manager_questions =
     [str ''What is your process for managing IT changes in an organization?'',
      str ''How do you communicate and coordinate with stakeholders during changes?'',
      str ''Describe your experience with change management frameworks like ITIL.'',
      str ''How do you assess the risks and impact of proposed changes?'',
      str ''What tools do you use to track and document IT change requests?'',
      str ''Can you share an example of a successful IT change implementation?'']"

definition generate_data_governance_analyst_questions :: "pystr list" where
  "generate_data_governance_analyst_questions =
     [str ''What is your experience with establishing data governance policies?'',
      str ''How do you ensure data compliance with regulations like GDPR or CCPA?'',
      str ''Describe your process for managing data quality and integrity.'',
      str ''What tools do you use for data lineage and cataloging?'',
      str ''How do you collaborate with stakeholders to enforce data governance?'',
      str ''Can you provide an example of improving data governance in a previous role?'']"

definition generate_performance_engineer_questions :: "pystr list" where
  "generate_performance_engineer_questions =
     [str ''What tools do you use to identify and resolve system performance issues?'',
      str ''Describe your experience with load testing and performance benchmarking.'',
      str ''How do you optimize application performance under heavy loads?'',
      str ''What metrics do you prioritize when evaluating system performance?'',
      str ''How do you troubleshoot and address performance bottlenecks?'',
      str ''Can you share an example of a successful performance optimization project?'']"

definition generate_bi_analyst_questions :: "pystr list" where
  "generate_bi_analyst_questions =
     [str ''What is your experience with BI tools like Tableau or Power BI?'',
      str ''How do you design and build interactive dashboards for stakeholders?'',
      str ''Describe your process for gathering and analyzing business requirements.'',
      str ''What methods do you use to validate data accuracy and insights?'',
      str ''How do you ensure BI solutions align with business goals?'',
      str ''Can you provide an example of using BI to drive business decisions?'']"

definition generate_sap_consultant_questions :: "pystr list" where
  "generate_sap_consultant_questions =
     [str ''What modules of SAP are you most experienced with?'',
      str ''How do you gather requirements and customize SAP solutions for clients?'',
      str ''Describe a successful SAP implementation project you worked on.'',
      str ''What is your approach to troubleshooting SAP system issues?'',
      str ''How do you ensure data migration and integration with SAP systems?'',
      str ''Can you share your experience with SAP S/4HANA and its benefits?'']"

definition generate_digital_transformation_consultant_questions :: "pystr list" where
  "generate_digital_transformation_consultant_questions =
     [str ''What is your approach to identifying areas for digital transformation?'',
      str ''Describe your experience with implementing new technologies in organizations.'',
      str ''How do you measure the success of digital transformation initiatives?'',
      str ''What methods do you use to manage resistance to change during transformations?'',
      str ''How do you ensure alignment between digital strategies and business goals?'',
      str ''Can you provide an example of a successful digital transformation project?'']"

definition generate_it_asset_manager_questions :: "pystr list" where
  "generate_it_asset_manager_questions =
     [str ''What is your process for tracking and managing IT assets?'',
      str ''How do you ensure compliance with software licenses and regulations?'',
      str ''Describe your experience with IT asset management tools.'',
      str ''What methods do you use to optimize the lifecycle of IT assets?'',
      str ''How do you handle asset disposals and data security during decommissioning?'',
      str ''Can you share an example of improving efficiency through IT asset management?'']"

definition generate_game_designer_questions :: "pystr list" where
  "generate_game_designer_questions =
     [str ''What is your process for creating engaging gameplay mechanics?'',
      str ''How do you balance storytelling, design, and user experience in games?'',
      str ''Describe your experience with game engines like Unity or Unreal Engine.'',
      str ''What methods do you use to prototype and test game concepts?'',
      str ''How do you collaborate with developers and artists during game production?'',
      str ''Can you share an example of a successful game design project you worked on?'']"

definition generate_social_media_analyst_questions :: "pystr list" where
  "generate_social_media_analyst_questions =
     [str ''What tools do you use to monitor and analyze social media performance?'',
      str ''How do you measure the success of social media campaigns?'',
      str ''Describe your approach to audience segmentation and targeting.'',
      str ''How do you use social media analytics to drive engagement strategies?'',
      str ''What methods do you use to track brand sentiment and competitor analysis?'',
      str ''Can you share an example of improving ROI through social media insights?'']"

definition job_titles :: "pystr list" where
  "job_titles =
     [str ''Software Engineer'',
      str ''Data Scientist'',
      str ''Cloud Engineer'',
      str ''Full Stack Developer'',
      str ''DevOps Engineer'',
      str ''Front End Developer'',
      str ''Back End Developer'',
      str ''Mobile Application Developer'',
      str ''Cybersecurity Analyst'',
      str ''Database Administrator'',
      str ''System Administrator'',
      str ''Network Engineer'',
      str ''IT Support Specialist'',
      str ''Web Developer'',
      str ''Product Manager'',
      str ''Machine Learning Engineer'',
      str ''IT Project Manager'',
      str ''Business Analyst'',
      str ''Technical Support Engineer'',
      str ''Quality Assurance Engineer'',
      str ''Data Engineer'',
      str ''Artificial Intelligence Engineer'',
      str ''UX/UI Designer'',
      str ''IT Consultant'',
      str ''Solutions Architect'',
      str ''IT Operations Manager'',
      str ''Chief Technology Officer (CTO)'',
      str ''Security Engineer'',
      str ''IT Auditor'',
      str ''Software Architect'',
      str ''Scrum Master'',
      str ''Technical Writer'',
      str ''Network Security Analyst'',
      str ''Game Developer'',
      str ''Embedded Systems Engineer'',
      str ''ERP Consultant'',
      str ''Salesforce Developer'',
      str ''Big Data Engineer'',
      str ''BI Developer'',
      str ''Information Security Analyst'',
      str ''Robotics Engineer'',
      str ''Cloud Solutions Architect'',
      str ''Computer Vision Engineer'',
      str ''Site Reliability Engineer'',
      str ''Penetration Tester'',
      str ''Data Analyst'',
      str ''Blockchain Developer'',
      str ''IT Compliance Specialist'',
      str ''Software Development Manager'',
      str ''Virtual Reality Developer'',
      str ''Infrastructure Engineer'',
      str ''IT Operations Analyst'',
      str ''Digital Marketing Specialist'',
      str ''Network Architect'',
      str ''Help Desk Technician'',
      str ''Configuration Manager'',
      str ''Systems Analyst'',
      str ''Database Developer'',
      str ''IT Business Partner'',
      str ''Cloud Consultant'',
      str ''Virtualization Engineer'',
      str ''E-commerce Specialist'',
      str ''IT Trainer'',
      str ''Technical Project Manager'',
      str ''Mobile UX Designer'',
      str ''Network Operations Center (NOC) Technician'',
      str ''Release Manager'',
      str ''IT Change Manager'',
      str ''Data Governance Analyst'',
      str ''Performance Engineer'',
      str ''BI Analyst'',
      str ''SAP Consultant'',
      str ''Digital Transformation Consultant'',
      str ''IT Asset Manager'',
      str ''Game Designer'',
      str ''Social Media Analyst'']"

text \<open>
  \<^verbatim>\<open>generate_questions_for_job\<close> builds the dictionary \<^verbatim>\<open>questions\<close> from a literal whose
  items are listed below in source order, strips the title, and returns the entry of the
  stripped title or four generic questions built from it with f-strings. Both branches print
  one line; the model returns the questions together with the text written to standard output.
  \<^verbatim>\<open>
      job_title = job_title.strip()
      if job_title in questions:
          print(f"Found job title: {job_title}")
          return questions[job_title]
      else:
          print(f"Job title not found: {job_title}. Returning default questions.")
          return [
              f"What relevant experience do you have for the role of {job_title}?",
              f"What technologies have you worked with that are essential for {job_title}?",
              f"Describe a challenge you faced in a similar role to {job_title} and how you resolved it.",
              f"How would you approach a project in the position of {job_title}?"
          ]
  \<close>
\<close>

definition questions :: "(pystr \<times> pystr list) list" where
  "questions =
     [(str ''Software Engineer'', generate_software_engineer_questions),
      (str ''Data Scientist'', generate_data_scientist_questions),
      (str ''Cloud Engineer'', generate_cloud_engineer_questions),
      (str ''Full Stack Developer'', generate_full_stack_developer_questions),
      (str ''DevOps Engineer'', generate_devops_engineer_questions),
      (str ''Front End Developer'', generate_front_end_developer_questions),
      (str ''Back End Developer'', generate_back_end_developer_questions),
      (str ''Mobile Application Developer'', generate_mobile_application_developer_questions),
      (str ''Cybersecurity Analyst'', generate_cybersecurity_analyst_questions),
      (str ''Database Administrator'', generate_database_administrator_questions),
      (str ''System Administrator'', generate_system_administrator_questions),
      (str ''Network Engineer'', generate_network_engineer_questions),
      (str ''IT Support Specialist'', generate_it_support_specialist_questions),
      (str ''Web Developer'', generate_web_developer_questions),
      (str ''Product Manager'', generate_product_manager_questions),
      (str ''Machine Learning Engineer'', generate_machine_learning_engineer_questions),
      (str ''IT Project Manager'', generate_it_project_manager_questions),
      (str ''Business Analyst'', generate_business_analyst_questions),
      (str ''Technical Support Engineer'', generate_technical_support_engineer_questions),
      (str ''Quality Assurance Engineer'', generate_quality_assurance_engineer_questions),
      (str ''Data Engineer'', generate_data_engineer_questions),
      (str ''Artificial Intelligence Engineer'', generate_ai_engineer_questions),
      (str ''UI/UX Designer'', generate_ux_ui_designer_questions),
      (str ''IT Consultant'', generate_it_consultant_questions),
      (str ''Solutions Architect'', generate_solutions_architect_questions),
      (str ''IT Operations Manager'', generate_it_operations_manager_questions),
      (str ''Chief Technology Officer'', generate_cto_questions),
      (str ''Security Engineer'', generate_security_engineer_questions),
      (str ''IT Auditor'', generate_it_auditor_questions),
      (str ''Software Architect'', generate_software_architect_questions),
      (str ''Scrum Master'', generate_scrum_master_questions),
      (str ''Technical Writer'', generate_technical_writer_questions),
      (str ''Network Security Analyst'', generate_network_security_analyst_questions),
      (str ''Game Developer'', generate_game_developer_questions),
      (str ''Embedded Systems Engineer'', generate_embedded_systems_engineer_questions),
      (str ''ERP Consultant'', generate_erp_consultant_questions),
      (str ''Salesforce Developer'', generate_salesforce_developer_questions),
      (str ''Big Data Engineer'', generate_big_data_engineer_questions),
      (str ''BI Developer'', generate_bi_developer_questions),
      (str ''Information Security Analyst'', generate_information_security_analyst_questions),
      (str ''Robotics Engineer'', generate_robotics_engineer_questions),
      (str ''Cloud Solutions Architect'', generate_cloud_solutions_architect_questions),
      (str ''Computer Vision Engineer'', generate_computer_vision_engineer_questions),
      (str ''Site Reliability Engineer'', generate_site_reliability_engineer_questions),
      (str ''Penetration Tester'', generate_penetration_tester_questions),
      (str ''Data Analyst'', generate_data_analyst_questions),
      (str ''Blockchain Developer'', generate_blockchain_developer_questions),
      (str ''IT Compliance Specialist'', generate_it_compliance_specialist_questions),
      (str ''Software Development Manager'', generate_software_development_manager_questions),
      (str ''Virtual Reality Developer'', generate_virtual_reality_developer_questions),
      (str ''Infrastructure Engineer'', generate_infrastructure_engineer_questions),
      (str ''IT Operations Analyst'', generate_it_operations_analyst_questions),
      (str ''Digital Marketing Specialist'', generate_digital_marketing_specialist_questions),
      (str ''Network Architect'', generate_network_architect_questions),
      (str ''Help Desk Technician'', generate_help_desk_technician_questions),
      (str ''Configuration Manager'', generate_configuration_manager_questions),
      (str ''Systems Analyst'', generate_systems_analyst_questions),
      (str ''Database Developer'', generate_database_developer_questions),
      (str ''IT Business Partner'', generate_it_business_partner_questions),
      (str ''Cloud Consultant'', generate_cloud_consultant_questions),
      (str ''Virtualization Engineer'', generate_virtualization_engineer_questions),
      (str ''E-commerce Specialist'', generate_e_commerce_specialist_questions),
      (str ''IT Trainer'', generate_it_trainer_questions),
      (str ''Technical Project Manager'', generate_technical_project_manager_questions),
      (str ''Mobile UX Designer'', generate_mobile_ux_designer_questions),
      (str ''Network Operations Center (NOC) Technician'', generate_noc_technician_questions),
      (str ''Release Manager'', generate_release_manager_questions),
      (str ''IT Change Manager'', generate_it_change_manager_questions),
      (str ''Data Governance Analyst'', generate_data_governance_analyst_questions),
      (str ''Performance Engineer'', generate_performance_engineer_questions),
      (str ''BI Analyst'', generate_bi_analyst_questions),
      (str ''SAP Consultant'', generate_sap_consultant_questions),
      (str ''Digital Transformation Consultant'', generate_digital_transformation_consultant_questions),
      (str ''IT Asset Manager'', generate_it_asset_manager_questions),
      (str ''Game Designer'', generate_game_designer_questions),
      (str ''Social Media Analyst'', generate_social_media_analyst_questions)]"

definition generate_questions_for_job :: "pystr \<Rightarrow> pystr list \<times> pystr" where
  "generate_questions_for_job title =
     (let job_title = strip title in
      case map_of questions job_title of
        Some qs \<Rightarrow> (qs, str ''Found job title: '' @ job_title @ [0x0A])
      | None \<Rightarrow>
          ([str ''What relevant experience do you have for the role of '' @ job_title @ str ''?'',
            str ''What technologies have you worked with that are essential for '' @ job_title @ str ''?'',
            str ''Describe a challenge you faced in a similar role to '' @ job_title @
              str '' and how you resolved it.'',
            str ''How would you approach a project in the position of '' @ job_title @ str ''?''],
           str ''Job title not found: '' @ job_title @ str ''. Returning default questions.'' @ [0x0A]))"

subsection \<open>The matcher\<close>

text \<open>
  \<^verbatim>\<open>
  def process_resume_and_match_jobs(pdf_file):
      resume_text = extract_text_from_pdf(pdf_file)
      results = collection.get(include=["documents", "metadatas"])
      job_descriptions = results["documents"]
      job_titles = [metadata["jobTitle"] for metadata in results["metadatas"]]
      if not job_descriptions:
          return {"matched_jobs": ["No job descriptions available in ChromaDB."]}
      try:
          vectorizer = TfidfVectorizer(stop_words='english')
          all_documents = [resume_text] + job_descriptions
          tfidf_matrix = vectorizer.fit_transform(all_documents)
          cosine_similarities = cosine_similarity(tfidf_matrix[0:1], tfidf_matrix[1:]).flatten()
          top_indices = cosine_similarities.argsort()[-5:][::-1]
          matched_jobs = [
              {"job_title": job_titles[i], "similarity": cosine_similarities[i]}
              for i in top_indices
          ]
      except ValueError as e:
          matched_jobs = [f"Error in processing job matching: {e}"]
      return {"matched_jobs": matched_jobs}
  \<close>
  The PDF reader, the document store, scikit-learn and NumPy are libraries outside the module.
  The function is embedded with what they hand to it as parameters:
  \<^item> \<open>extracted\<close>, the outcome of \<^verbatim>\<open>extract_text_from_pdf(pdf_file)\<close>, a text or the exception
    the reader raised;
  \<^item> \<open>results\<close>, the answer of \<^verbatim>\<open>collection.get\<close>: the stored documents and their metadata
    dictionaries;
  \<^item> \<open>fit_transform\<close>, the vectorizer: one row vector per document, or an exception;
  \<^item> \<open>cosine\<close>, the similarity of two row vectors, a double without NaN, read as a real;
  \<^item> \<open>argsort\<close>, NumPy's indirect sort.
  The value of the one key \<^verbatim>\<open>"matched_jobs"\<close> stands for the returned dictionary. Its members
  are strings (\<open>Message\<close>) or dictionaries with a title and a score (\<open>Match\<close>).
\<close>

datatype py_exception = KeyError pystr | IndexError | ValueError pystr | OtherError pystr

record chroma_results =
  documents :: "pystr list"
  metadatas :: "(pystr \<rightharpoonup> pystr) list"

datatype matched_job = Message pystr | is_Match: Match (job_title: pystr) (similarity: real)

text \<open>The comprehension over the metadata raises \<^verbatim>\<open>KeyError\<close> at the first dictionary without the key.\<close>

fun job_titles_of :: "(pystr \<rightharpoonup> pystr) list \<Rightarrow> py_exception + pystr list" where
  "job_titles_of [] = Inr []"
| "job_titles_of (metadata # rest) =
     (case metadata (str ''jobTitle'') of
        None \<Rightarrow> Inl (KeyError (str ''jobTitle''))
      | Some t \<Rightarrow> (case job_titles_of rest of Inl e \<Rightarrow> Inl e | Inr ts \<Rightarrow> Inr (t # ts)))"

text \<open>
  \<^verbatim>\<open>cosine_similarity(X, Y)\<close> is the matrix of the similarities of every row of \<open>X\<close> with
  every row of \<open>Y\<close>; \<^verbatim>\<open>flatten\<close> concatenates its rows.
\<close>

definition cosine_similarity :: "('v \<Rightarrow> 'v \<Rightarrow> real) \<Rightarrow> 'v list \<Rightarrow> 'v list \<Rightarrow> real list list" where
  "cosine_similarity cosine X Y = map (\<lambda>x. map (cosine x) Y) X"

definition flatten :: "real list list \<Rightarrow> real list" where
  "flatten M = concat M"

text \<open>
  The comprehension building the entries indexes a list and an array with every selected
  index; either raises \<^verbatim>\<open>IndexError\<close> out of range, which the handler does not catch.
\<close>

fun matched_entries :: "pystr list \<Rightarrow> real list \<Rightarrow> nat list \<Rightarrow> py_exception + matched_job list" where
  "matched_entries titles sims [] = Inr []"
| "matched_entries titles sims (i # rest) =
     (if i < length titles \<and> i < length sims
      then (case matched_entries titles sims rest of
              Inl e \<Rightarrow> Inl e
            | Inr ms \<Rightarrow> Inr (Match (titles ! i) (sims ! i) # ms))
      else Inl IndexError)"

definition process_resume_and_match_jobs ::
  "(pystr list \<Rightarrow> py_exception + 'v list) \<Rightarrow> ('v \<Rightarrow> 'v \<Rightarrow> real) \<Rightarrow> (real list \<Rightarrow> nat list) \<Rightarrow>
     py_exception + pystr \<Rightarrow> chroma_results \<Rightarrow> py_exception + matched_job list" where
  "process_resume_and_match_jobs fit_transform cosine argsort extracted results =
     (case extracted of
        Inl e \<Rightarrow> Inl e
      | Inr resume_text \<Rightarrow>
          let job_descriptions = documents results in
          (case job_titles_of (metadatas results) of
             Inl e \<Rightarrow> Inl e
           | Inr titles \<Rightarrow>
               if job_descriptions = []
               then Inr [Message (str ''No job descriptions available in ChromaDB.'')]
               else
                 let all_documents = [resume_text] @ job_descriptions in
                 (case fit_transform all_documents of
                    Inl (ValueError e) \<Rightarrow>
                      Inr [Message (str ''Error in processing job matching: '' @ e)]
                  | Inl e \<Rightarrow> Inl e
                  | Inr tfidf_matrix \<Rightarrow>
                      let cosine_similarities =
                            flatten (cosine_similarity cosine (take 1 tfidf_matrix) (drop 1 tfidf_matrix));
                          sorted_indices = argsort cosine_similarities;
                          top_indices = rev (drop (length sorted_indices - 5) sorted_indices)
                      in matched_entries titles cosine_similarities top_indices)))"


definition stable_argsort :: "real list \<Rightarrow> nat list" where
  "stable_argsort xs = sort_key (\<lambda>i. xs ! i) [0..<length xs]"

text \<open>
  A corpus of job records (a title and a description each) is an answer of the store with as
  many metadata dictionaries as documents, each holding a \<^verbatim>\<open>jobTitle\<close>.
\<close>

definition job_corpus :: "chroma_results \<Rightarrow> bool" where
  "job_corpus results \<longleftrightarrow>
     length (metadatas results) = length (documents results) \<and>
     list_all (\<lambda>metadata. metadata (str ''jobTitle'') \<noteq> None) (metadatas results)"

section \<open>Properties\<close>

subsection \<open>Strings\<close>


lemma str_eq_iff: "str a = str b \<longleftrightarrow> a = b"
  unfolding str_def by (simp add: inj_map_eq_map inj_on_def)

lemma length_str: "length (str s) = length s"
  by (simp add: str_def)

subsection \<open>The answer heuristic\<close>

lemma count_answers_filter:
  "count_answers answers score = score + int (length (filter (\<lambda>a. length (strip a) > 20) answers))"
  by (induction answers arbitrary: score) simp_all

lemma count_answers_bounds:
  "score \<le> count_answers answers score \<and> count_answers answers score \<le> score + int (length answers)"
proof -
  have "length (filter (\<lambda>a. length (strip a) > 20) answers) \<le> length answers"
    by (rule length_filter_le)
  then show ?thesis by (simp add: count_answers_filter)
qed

lemma strip_no_space: "\<forall>c \<in> set s. \<not> isspace c \<Longrightarrow> strip s = s"
proof -
  assume h: "\<forall>c \<in> set s. \<not> isspace c"
  have a: "dropWhile isspace s = s" using h by (cases s) simp_all
  have b: "dropWhile isspace (rev s) = rev s" using h by (cases "rev s") (auto simp: rev_eq_Cons_iff dest: arg_cong[where f=set])
  show ?thesis by (simp add: strip_def a b)
qed

lemma strip_repeat_a: "strip (concat (replicate n (str ''a''))) = concat (replicate n (str ''a''))"
  by (rule strip_no_space) (auto simp: str_def isspace_def)

lemma length_repeat_a: "length (concat (replicate n (str ''a''))) = n"
  by (induction n) (simp_all add: str_def)

lemma strip_short: "strip (str ''short'') = str ''short''"
  by (rule strip_no_space) (simp add: str_def isspace_def)

text \<open>
  Claim C1, as the code has it. For the empty list the loop leaves \<open>score = 0\<close> and the first
  test is \<open>0 \<ge> 0 * 0.8\<close>, which holds: the function returns score 0 with the "Excellent"
  message. Nothing is divided, and no statement of the function can raise on a list of strings,
  so the call returns.
\<close>

theorem provide_feedback_empty:
  "provide_feedback [] = (0, str ''Excellent! You have strong responses for this role.'')"
  by (simp add: provide_feedback_def)

text \<open>
  Claim C1 as stated, that the empty list gets score 0 with the "Needs improvement" message, is
  false.
\<close>

theorem provide_feedback_empty_not_needs_improvement:
  "provide_feedback [] \<noteq> (0, str ''Needs improvement. Consider revising your answers.'')"
  by (simp add: provide_feedback_def str_eq_iff)

text \<open>
  Claim C6. For every non-empty list of answers the score is the number of answers whose
  stripped length exceeds 20, and the message follows the ratio of score to number of
  answers: "Excellent" from 0.8 on, "Good" from 0.5 up to but excluding 0.8, "Needs
  improvement" below 0.5. Two strings of 25 letters and \<open>short\<close> give score 2 and "Good";
  five strings of 25 letters give "Excellent".
\<close>

theorem provide_feedback_tiers:
  "(\<forall>answers. answers \<noteq> [] \<longrightarrow>
      (let score = fst (provide_feedback answers);
           feedback = snd (provide_feedback answers);
           ratio = real_of_int score / real (length answers)
       in score = int (length (filter (\<lambda>answer. length (strip answer) > 20) answers)) \<and>
          (ratio \<ge> 0.8 \<longrightarrow> feedback = str ''Excellent! You have strong responses for this role.'') \<and>
          (0.5 \<le> ratio \<and> ratio < 0.8 \<longrightarrow>
             feedback = str ''Good! But there's room for improvement in some answers.'') \<and>
          (ratio < 0.5 \<longrightarrow> feedback = str ''Needs improvement. Consider revising your answers.''))) \<and>
   provide_feedback [concat (replicate 25 (str ''a'')), concat (replicate 25 (str ''a'')), str ''short'']
     = (2, str ''Good! But there's room for improvement in some answers.'') \<and>
   provide_feedback (replicate 5 (concat (replicate 25 (str ''a''))))
     = (5, str ''Excellent! You have strong responses for this role.'')"
proof (intro conjI allI impI)
  fix answers :: "pystr list"
  assume ne: "answers \<noteq> []"
  define n where "n = real (length answers)"
  define score where "score = count_answers answers 0"
  have npos: "0 < n" using ne by (simp add: n_def)
  have r8: "real_of_int score / n \<ge> 0.8 \<longleftrightarrow> real_of_int score \<ge> n * 0.8"
    using npos by (simp add: field_simps)
  have r5: "real_of_int score / n \<ge> 0.5 \<longleftrightarrow> real_of_int score \<ge> n * 0.5"
    using npos by (simp add: field_simps)
  have r8': "real_of_int score / n < 0.8 \<longleftrightarrow> \<not> real_of_int score \<ge> n * 0.8"
    using r8 by linarith
  have r5': "real_of_int score / n < 0.5 \<longleftrightarrow> \<not> real_of_int score \<ge> n * 0.5"
    using r5 by linarith
  have le: "n * 0.5 \<le> n * 0.8" using npos by simp
  have fs: "fst (provide_feedback answers) = score"
    by (simp add: provide_feedback_def score_def Let_def)
  have sn: "snd (provide_feedback answers) =
      (if real_of_int score \<ge> n * 0.8
         then str ''Excellent! You have strong responses for this role.''
       else if real_of_int score \<ge> n * 0.5
         then str ''Good! But there's room for improvement in some answers.''
       else str ''Needs improvement. Consider revising your answers.'')"
    by (simp add: provide_feedback_def score_def n_def Let_def)
  have cnt: "score = int (length (filter (\<lambda>answer. length (strip answer) > 20) answers))"
    by (simp add: score_def count_answers_filter)
  show "let score = fst (provide_feedback answers);
           feedback = snd (provide_feedback answers);
           ratio = real_of_int score / real (length answers)
       in score = int (length (filter (\<lambda>answer. length (strip answer) > 20) answers)) \<and>
          (ratio \<ge> 0.8 \<longrightarrow> feedback = str ''Excellent! You have strong responses for this role.'') \<and>
          (0.5 \<le> ratio \<and> ratio < 0.8 \<longrightarrow>
             feedback = str ''Good! But there's room for improvement in some answers.'') \<and>
          (ratio < 0.5 \<longrightarrow> feedback = str ''Needs improvement. Consider revising your answers.'')"
    unfolding Let_def fs sn n_def[symmetric]
    using cnt r8 r5 r8' r5' le by auto
next
  show "provide_feedback [concat (replicate 25 (str ''a'')), concat (replicate 25 (str ''a'')), str ''short'']
     = (2, str ''Good! But there's room for improvement in some answers.'')"
    by (simp add: provide_feedback_def strip_repeat_a length_repeat_a strip_short length_str)
next
  have "filter (\<lambda>a. length (strip a) > 20) (replicate 5 (concat (replicate 25 (str ''a''))))
      = replicate 5 (concat (replicate 25 (str ''a'')))"
    by (simp add: strip_repeat_a length_repeat_a)
  then show "provide_feedback (replicate 5 (concat (replicate 25 (str ''a''))))
     = (5, str ''Excellent! You have strong responses for this role.'')"
    by (simp add: provide_feedback_def count_answers_filter)
qed

text \<open>The general part of C6 at a list of one long and one short answer.\<close>

theorem provide_feedback_tiers_witness:
  "[str ''I have led three migrations to the cloud.'', str ''  no  ''] \<noteq> [] \<and>
   fst (provide_feedback [str ''I have led three migrations to the cloud.'', str ''  no  '']) = 1 \<and>
   snd (provide_feedback [str ''I have led three migrations to the cloud.'', str ''  no  ''])
     = str ''Good! But there's room for improvement in some answers.''"
  using provide_feedback_tiers[THEN conjunct1, rule_format,
          of "[str ''I have led three migrations to the cloud.'', str ''  no  '']"]
  by (simp add: Let_def strip_def isspace_def str_def)

text \<open>
  Claim C10. For every list of answers the score lies between 0 and the number of answers, and
  the message is one of the three literals of the function.
\<close>

theorem provide_feedback_range:
  "0 \<le> fst (provide_feedback answers) \<and>
   fst (provide_feedback answers) \<le> int (length answers) \<and>
   snd (provide_feedback answers) \<in>
     {str ''Excellent! You have strong responses for this role.'',
      str ''Good! But there's room for improvement in some answers.'',
      str ''Needs improvement. Consider revising your answers.''}"
  using count_answers_bounds[of 0 answers] by (simp add: provide_feedback_def Let_def)

subsection \<open>The question bank\<close>


lemma str_append: "str a @ str b = str (a @ b)"
  by (simp add: str_def)



text \<open>
  No key occurs twice in the dictionary literal, so the association list read from the front
  is the dictionary Python builds.
\<close>

lemma questions_keys_distinct: "distinct (map fst questions)"
  by (simp add: questions_def str_eq_iff)

lemma dropWhile_keeps_head:
  "xs \<noteq> [] \<Longrightarrow> \<not> P (hd xs) \<Longrightarrow>
     rev (dropWhile P (rev xs)) \<noteq> [] \<and> hd (rev (dropWhile P (rev xs))) = hd xs"
  by (cases xs) (auto simp: dropWhile_append)

lemma strip_head: "strip s = [] \<or> \<not> isspace (hd (strip s))"
proof (cases "dropWhile isspace s = []")
  case True
  show ?thesis unfolding strip_def True by simp
next
  case False
  then have "\<not> isspace (hd (dropWhile isspace s))"
    by (rule hd_dropWhile)
  with False show ?thesis
    unfolding strip_def using dropWhile_keeps_head[of "dropWhile isspace s" isspace] by simp
qed

lemma strip_idem: "strip (strip s) = strip s"
proof -
  have l: "dropWhile isspace (strip s) = strip s"
    using strip_head[of s] by (simp add: dropWhile_eq_self_iff)
  have r: "dropWhile isspace (rev (strip s)) = rev (strip s)"
    by (simp add: strip_def)
  show ?thesis
    unfolding strip_def[of "strip s"] l r by simp
qed

lemma strip_software_engineer: "strip (str ''  Software Engineer  '') = str ''Software Engineer''"
  by (simp add: strip_def isspace_def str_def)

lemma strip_software_engineer_id: "strip (str ''Software Engineer'') = str ''Software Engineer''"
  by (simp add: strip_def isspace_def str_def)

lemma strip_lower: "strip (str ''software engineer'') = str ''software engineer''"
  by (simp add: strip_def isspace_def str_def)

lemma strip_ux_ui: "strip (str ''UX/UI Designer'') = str ''UX/UI Designer''"
  by (simp add: strip_def isspace_def str_def)

lemma strip_cto: "strip (str ''Chief Technology Officer (CTO)'') = str ''Chief Technology Officer (CTO)''"
  by (simp add: strip_def isspace_def str_def)


lemma lookup_software_engineer:
  "map_of questions (str ''Software Engineer'') = Some generate_software_engineer_questions"
  by (simp add: questions_def str_eq_iff)

lemma lookup_lower: "map_of questions (str ''software engineer'') = None"
  by (simp add: questions_def str_eq_iff)


lemma lookup_ux_ui: "map_of questions (str ''UX/UI Designer'') = None"
  by (simp add: questions_def str_eq_iff)

lemma lookup_cto: "map_of questions (str ''Chief Technology Officer (CTO)'') = None"
  by (simp add: questions_def str_eq_iff)

lemma lookup_ui_ux: "map_of questions (str ''UI/UX Designer'') = Some generate_ux_ui_designer_questions"
  by (simp add: questions_def str_eq_iff)

lemma lookup_cto_short: "map_of questions (str ''Chief Technology Officer'') = Some generate_cto_questions"
  by (simp add: questions_def str_eq_iff)

lemma known_title_iff: "title \<in> set (map fst questions) \<longleftrightarrow> map_of questions title \<noteq> None"
  by (simp add: map_of_eq_None_iff)



text \<open>
  Claim C8. The function gives the same result, questions and printed line, on a title and on
  the stripped title. In particular the padded \<open>Software Engineer\<close> gets the questions of
  \<open>Software Engineer\<close>, while the lower-case spelling is no key and gets the generic
  questions: keys are compared code point by code point.
\<close>

theorem generate_questions_for_job_strip:
  "(\<forall>title. generate_questions_for_job title = generate_questions_for_job (strip title)) \<and>
   generate_questions_for_job (str ''  Software Engineer  '') =
     generate_questions_for_job (str ''Software Engineer'') \<and>
   fst (generate_questions_for_job (str ''Software Engineer'')) = generate_software_engineer_questions \<and>
   fst (generate_questions_for_job (str ''software engineer'')) =
     [str ''What relevant experience do you have for the role of software engineer?'',
      str ''What technologies have you worked with that are essential for software engineer?'',
      str ''Describe a challenge you faced in a similar role to software engineer and how you resolved it.'',
      str ''How would you approach a project in the position of software engineer?'']"
  by (simp add: generate_questions_for_job_def strip_idem strip_software_engineer
        strip_software_engineer_id strip_lower lookup_software_engineer lookup_lower str_append)

text \<open>
  Claim C9. \<open>UX/UI Designer\<close> and \<open>Chief Technology Officer (CTO)\<close> are in \<open>job_titles\<close> but
  are no keys of the dictionary, whose keys for these roles are \<open>UI/UX Designer\<close> and
  \<open>Chief Technology Officer\<close>; for both advertised spellings the function returns the four
  generic questions.
\<close>

theorem advertised_titles_without_questions:
  "str ''UX/UI Designer'' \<in> set job_titles \<and>
   str ''Chief Technology Officer (CTO)'' \<in> set job_titles \<and>
   str ''UX/UI Designer'' \<notin> set (map fst questions) \<and>
   str ''Chief Technology Officer (CTO)'' \<notin> set (map fst questions) \<and>
   map_of questions (str ''UI/UX Designer'') = Some generate_ux_ui_designer_questions \<and>
   map_of questions (str ''Chief Technology Officer'') = Some generate_cto_questions \<and>
   fst (generate_questions_for_job (str ''UX/UI Designer'')) =
     [str ''What relevant experience do you have for the role of UX/UI Designer?'',
      str ''What technologies have you worked with that are essential for UX/UI Designer?'',
      str ''Describe a challenge you faced in a similar role to UX/UI Designer and how you resolved it.'',
      str ''How would you approach a project in the position of UX/UI Designer?''] \<and>
   fst (generate_questions_for_job (str ''Chief Technology Officer (CTO)'')) =
     [str ''What relevant experience do you have for the role of Chief Technology Officer (CTO)?'',
      str ''What technologies have you worked with that are essential for Chief Technology Officer (CTO)?'',
      str ''Describe a challenge you faced in a similar role to Chief Technology Officer (CTO) and how you resolved it.'',
      str ''How would you approach a project in the position of Chief Technology Officer (CTO)?'']"
proof -
  have "str ''UX/UI Designer'' \<in> set job_titles" "str ''Chief Technology Officer (CTO)'' \<in> set job_titles"
    by (simp_all add: job_titles_def str_eq_iff)
  then show ?thesis
    by (simp add: generate_questions_for_job_def known_title_iff strip_ux_ui strip_cto lookup_ux_ui
        lookup_cto lookup_ui_ux lookup_cto_short str_append del: set_map)
qed

subsection \<open>The matcher\<close>

text \<open>
  The matcher starts from an extracted text: the theorems below take the reader's outcome to be
  \<open>Inr resume_text\<close>. An exception of the reader is handed to the caller by the first case of
  the definition. Nothing is stated about the values of the scores, which \<open>cosine\<close> supplies.
\<close>

lemma job_titles_of_corpus:
  "list_all (\<lambda>metadata. metadata (str ''jobTitle'') \<noteq> None) ms \<Longrightarrow>
     job_titles_of ms = Inr (map (\<lambda>metadata. the (metadata (str ''jobTitle''))) ms)"
  by (induction ms) auto








text \<open>
  Claim C3. For a corpus without records the function returns exactly one entry, the message
  that no job descriptions are available; it returns whatever the vectorizer, the similarity
  and the sort would do, since none of them is reached.
\<close>

theorem empty_corpus_sentinel:
  "job_corpus results \<Longrightarrow> documents results = [] \<Longrightarrow>
   process_resume_and_match_jobs fit_transform cosine argsort (Inr resume_text) results =
     Inr [Message (str ''No job descriptions available in ChromaDB.'')]"
  by (simp add: process_resume_and_match_jobs_def job_corpus_def)

text \<open>
  Claim C4. For every resume text and every non-empty corpus of job records, when the
  vectorizer raises \<^verbatim>\<open>ValueError\<close> (the exception scikit-learn raises for an empty vocabulary)
  the function returns a list with the single entry
  \<^verbatim>\<open>Error in processing job matching: \<close> followed by the exception's message; the exception
  does not reach the caller.
\<close>

theorem vectorizer_failure_is_reported:
  "job_corpus results \<Longrightarrow> documents results \<noteq> [] \<Longrightarrow>
   fit_transform (resume_text # documents results) = Inl (ValueError msg) \<Longrightarrow>
   process_resume_and_match_jobs fit_transform cosine argsort (Inr resume_text) results =
     Inr [Message (str ''Error in processing job matching: '' @ msg)]"
  by (simp add: process_resume_and_match_jobs_def job_corpus_def job_titles_of_corpus)



text \<open>
  The value returned at that input: the closer record first.
\<close>

lemma example_ranking:
  "process_resume_and_match_jobs (\<lambda>docs. Inr (map length docs))
        (\<lambda>a b. real (min a b) / real (max a b)) stable_argsort (Inr (str ''python''))
        \<lparr>documents = [str ''python developer'', str ''java''],
         metadatas = [[str ''jobTitle'' \<mapsto> str ''Data Engineer''],
                      [str ''jobTitle'' \<mapsto> str ''Java Developer'']]\<rparr>
    = Inr [Match (str ''Java Developer'') (2/3), Match (str ''Data Engineer'') (3/8)]"
  by (simp add: process_resume_and_match_jobs_def str_eq_iff length_str flatten_def
        cosine_similarity_def stable_argsort_def Let_def)

text \<open>
  C3 at the empty answer of the store.
\<close>

theorem empty_corpus_sentinel_witness:
  "job_corpus \<lparr>documents = [], metadatas = []\<rparr> \<and>
   documents \<lparr>documents = [], metadatas = []\<rparr> = [] \<and>
   process_resume_and_match_jobs (\<lambda>docs. Inr (map length docs))
     (\<lambda>a b. real (min a b) / real (max a b)) stable_argsort (Inr (str ''python''))
     \<lparr>documents = [], metadatas = []\<rparr> =
     Inr [Message (str ''No job descriptions available in ChromaDB.'')]"
proof -
  have c: "job_corpus \<lparr>documents = [], metadatas = []\<rparr>" by (simp add: job_corpus_def)
  have d: "documents \<lparr>documents = [], metadatas = []\<rparr> = []" by simp
  from empty_corpus_sentinel[OF c d] c d show ?thesis by blast
qed

text \<open>
  C4 at a corpus whose only document and the resume are stop words.
\<close>

theorem vectorizer_failure_is_reported_witness:
  "job_corpus \<lparr>documents = [str ''the''], metadatas = [[str ''jobTitle'' \<mapsto> str ''Editor'']]\<rparr> \<and>
   documents \<lparr>documents = [str ''the''], metadatas = [[str ''jobTitle'' \<mapsto> str ''Editor'']]\<rparr> \<noteq> [] \<and>
   process_resume_and_match_jobs
     (\<lambda>docs. Inl (ValueError (str ''empty vocabulary; perhaps the documents only contain stop words'')))
     (\<lambda>a b :: nat. 0) stable_argsort (Inr (str ''and''))
     \<lparr>documents = [str ''the''], metadatas = [[str ''jobTitle'' \<mapsto> str ''Editor'']]\<rparr> =
     Inr [Message (str ''Error in processing job matching: empty vocabulary; perhaps the documents only contain stop words'')]"
proof -
  let ?R = "\<lparr>documents = [str ''the''], metadatas = [[str ''jobTitle'' \<mapsto> str ''Editor'']]\<rparr>"
  let ?F = "\<lambda>docs :: pystr list. (Inl (ValueError (str ''empty vocabulary; perhaps the documents only contain stop words'')) :: py_exception + nat list)"
  have c: "job_corpus ?R" by (simp add: job_corpus_def)
  have n: "documents ?R \<noteq> []" by simp
  have f: "?F (str ''and'' # documents ?R) =
     Inl (ValueError (str ''empty vocabulary; perhaps the documents only contain stop words''))" by simp
  from vectorizer_failure_is_reported[where fit_transform = ?F, OF c n f] c n
  show ?thesis by (simp add: str_def)
qed

end
